theory Spec2Isabelle
  imports Main
begin

section \<open>Strings\<close>

text \<open>
  A JavaScript string is modelled as a HOL \<^typ>\<open>string\<close>, one \<^typ>\<open>char\<close> per code unit.
  On ASCII text \<^const>\<open>length\<close> is JavaScript's \<open>.length\<close>; the few non-ASCII
  characters of the fixed output templates (the heading emoji, the bullet) are written as
  their UTF-8 bytes, and nothing below measures them.
\<close>

definition is_space :: "char \<Rightarrow> bool" where
  "is_space c \<longleftrightarrow> c \<in> set [CHR 0x09, CHR 0x0A, CHR 0x0B, CHR 0x0C, CHR 0x0D, CHR 0x20]"

text \<open>\<open>s.trim()\<close>\<close>

definition trim :: "string \<Rightarrow> string" where
  "trim s = rev (dropWhile is_space (rev (dropWhile is_space s)))"

fun starts_with :: "string \<Rightarrow> string \<Rightarrow> bool" where
  "starts_with s [] = True"
| "starts_with [] (k # ks) = False"
| "starts_with (c # cs) (k # ks) = (c = k \<and> starts_with cs ks)"

text \<open>\<open>s.includes(k)\<close>\<close>

fun str_includes :: "string \<Rightarrow> string \<Rightarrow> bool" where
  "str_includes [] k = (k = [])"
| "str_includes (c # cs) k = (starts_with (c # cs) k \<or> str_includes cs k)"

text \<open>\<open>s.substring(0, n)\<close>\<close>

definition substring0 :: "nat \<Rightarrow> string \<Rightarrow> string" where
  "substring0 n s = take n s"

text \<open>The decimal rendering of a number inside a template literal, \<open>`${n}`\<close>.\<close>

fun show_nat :: "nat \<Rightarrow> string" where
  "show_nat n =
     (if n < 10 then [''0123456789'' ! n]
      else show_nat (n div 10) @ [''0123456789'' ! (n mod 10)])"

section \<open>The retrying invoker: \<open>callHFWithRetry\<close> (src/lib/ai.ts)\<close>

text \<open>
  \<open>response.data\<close> of the inference API is either an array of outputs or an object
  with an \<open>error\<close> string. A field that is absent is \<open>None\<close>.
\<close>

record hf_output =
  summary_text :: "string option"
  generated_text :: "string option"

datatype hf_data = Outputs "hf_output list" | ErrorBody string

text \<open>What makes \<open>axios.post\<close> throw: no response at all, the 60 second timeout, or a
  response whose status is outside 2xx (400 malformed request, 401 authentication, 503, ...).\<close>

datatype http_failure = NetworkError | Timeout | HttpStatus nat

datatype attempt_result = Responded hf_data | Failed http_failure

text \<open>
  The remote service, as the invoker sees it: the model name, the inputs and the
  parameters of the request, and the number of the attempt (from 1), give the result of that
  \<open>axios.post\<close>.
\<close>

type_synonym hf_params = "(string \<times> string) list"
type_synonym hf_api = "string \<Rightarrow> string \<Rightarrow> hf_params \<Rightarrow> nat \<Rightarrow> attempt_result"

datatype js_error = Error string

text \<open>What the invoker does, in order: each \<open>axios.post\<close> and each \<open>setTimeout\<close> wait
  (in milliseconds).\<close>

datatype event = Post nat | Sleep nat

text \<open>\<open>response.data.error && response.data.error.includes('loading')\<close>\<close>

fun is_loading :: "hf_data \<Rightarrow> bool" where
  "is_loading (ErrorBody e) = str_includes e ''loading''"
| "is_loading (Outputs os) = False"

text \<open>
  The \<open>for\<close> loop of \<open>callHFWithRetry\<close>, from \<open>attempt\<close> on. The result is what the
  function returns (\<open>Inr None\<close> is \<open>undefined\<close>, when the loop body never runs) or throws
  (\<open>Inl\<close>), with the trace of posts and waits.
\<close>

function retry_loop ::
  "(nat \<Rightarrow> attempt_result) \<Rightarrow> nat \<Rightarrow> nat \<Rightarrow> (js_error + hf_data option) \<times> event list" where
  "retry_loop post maxRetries attempt =
     (if attempt \<le> maxRetries then
        (case post attempt of
           Responded d \<Rightarrow>
             if is_loading d \<and> attempt < maxRetries then
               (let (r, tr) = retry_loop post maxRetries (attempt + 1)
                in (r, Post attempt # Sleep (attempt * 2000) # tr))
             else (Inr (Some d), [Post attempt])
         | Failed e \<Rightarrow>
             if attempt = maxRetries then
               (Inl (Error (''HuggingFace API failed after '' @ show_nat maxRetries @ '' attempts'')),
                [Post attempt])
             else
               (let (r, tr) = retry_loop post maxRetries (attempt + 1)
                in (r, Post attempt # Sleep (attempt * 1000) # tr)))
      else (Inr None, []))"
  by pat_completeness auto
termination
  by (relation "measure (\<lambda>(post, maxRetries, attempt). Suc maxRetries - attempt)") auto

definition callHFWithRetry ::
  "hf_api \<Rightarrow> string \<Rightarrow> string \<Rightarrow> hf_params \<Rightarrow> nat \<Rightarrow> (js_error + hf_data option) \<times> event list" where
  "callHFWithRetry api model inputs params maxRetries = retry_loop (api model inputs params) maxRetries 1"

text \<open>The number of \<open>axios.post\<close> calls in a trace, and its waits.\<close>

definition attempts :: "event list \<Rightarrow> nat" where
  "attempts tr = length (filter (\<lambda>e. case e of Post n \<Rightarrow> True | Sleep ms \<Rightarrow> False) tr)"

definition sleeps :: "event list \<Rightarrow> nat list" where
  "sleeps tr = concat (map (\<lambda>e. case e of Post n \<Rightarrow> [] | Sleep ms \<Rightarrow> [ms]) tr)"

text \<open>An attempt fails transiently: the post throws, or the service answers that the model
  is loading (warm-up).\<close>

fun fails_transiently :: "attempt_result \<Rightarrow> bool" where
  "fails_transiently (Failed e) = True"
| "fails_transiently (Responded d) = is_loading d"

definition all_attempts_fail :: "(nat \<Rightarrow> attempt_result) \<Rightarrow> nat \<Rightarrow> bool" where
  "all_attempts_fail post maxRetries = list_all (\<lambda>n. fails_transiently (post n)) [1..<Suc maxRetries]"

text \<open>Two services used as concrete inputs: one that always answers "loading", one that
  always rejects the credentials (HTTP 401).\<close>

definition always_loading :: hf_api where
  "always_loading model inputs params n = Responded (ErrorBody ''Model facebook/bart-large-cnn is currently loading'')"

definition always_unauthorized :: hf_api where
  "always_unauthorized model inputs params n = Failed (HttpStatus 401)"

section \<open>Text helpers of the generators\<close>

definition bullet :: string where "bullet = [CHR 0xE2, CHR 0x80, CHR 0xA2]"
definition emoji_memo :: string where "emoji_memo = [CHR 0xF0, CHR 0x9F, CHR 0x93, CHR 0x9D]"
definition emoji_1234 :: string where "emoji_1234 = [CHR 0xF0, CHR 0x9F, CHR 0x94, CHR 0xA2]"
definition emoji_microscope :: string where "emoji_microscope = [CHR 0xF0, CHR 0x9F, CHR 0x94, CHR 0xAC]"
definition emoji_writing_hand :: string where "emoji_writing_hand = [CHR 0xE2, CHR 0x9C, CHR 0x8D]"
definition variation_selector :: string where "variation_selector = [CHR 0xEF, CHR 0xB8, CHR 0x8F]"
definition emoji_books :: string where "emoji_books = [CHR 0xF0, CHR 0x9F, CHR 0x93, CHR 0x9A]"

text \<open>\<open>s.split(/[.!?]+/)\<close>: the pieces between maximal runs of terminators; a text that
  starts or ends with a terminator gives an empty first or last piece.\<close>

definition is_terminator :: "char \<Rightarrow> bool" where
  "is_terminator c \<longleftrightarrow> c \<in> set ''.!?''"

function split_terminators_from :: "string \<Rightarrow> string \<Rightarrow> string list" where
  "split_terminators_from piece [] = [rev piece]"
| "split_terminators_from piece (c # cs) =
     (if is_terminator c then rev piece # split_terminators_from [] (dropWhile is_terminator cs)
      else split_terminators_from (c # piece) cs)"
  by pat_completeness auto
termination
  by (relation "measure (\<lambda>(piece, s). length s)") (auto simp: le_imp_less_Suc length_dropWhile_le)

definition split_terminators :: "string \<Rightarrow> string list" where
  "split_terminators s = split_terminators_from [] s"

text \<open>\<open>s.split('\n')\<close>: every newline separates two pieces.\<close>

fun split_lines_from :: "string \<Rightarrow> string \<Rightarrow> string list" where
  "split_lines_from piece [] = [rev piece]"
| "split_lines_from piece (c # cs) =
     (if c = CHR 0x0A then rev piece # split_lines_from [] cs
      else split_lines_from (c # piece) cs)"

definition split_lines :: "string \<Rightarrow> string list" where
  "split_lines s = split_lines_from [] s"

text \<open>\<open>s.toLowerCase()\<close>, on the letters A to Z.\<close>

definition lower_char :: "char \<Rightarrow> char" where
  "lower_char c = (let n = (of_char c :: nat) in if 65 \<le> n \<and> n \<le> 90 then char_of (n + 32) else c)"

definition toLowerCase :: "string \<Rightarrow> string" where
  "toLowerCase s = map lower_char s"

text \<open>The lines \<open>`${index + 1}. ${sentence}.\n`\<close> that \<open>forEach((sentence, index) => ...)\<close> appends.\<close>

definition numbered :: "string list \<Rightarrow> string" where
  "numbered xs = concat (map (\<lambda>(index, s). show_nat (index + 1) @ ''. '' @ s @ ''.\<newline>'') (enumerate 0 xs))"

section \<open>Summaries: \<open>formatSummary\<close> and \<open>createExtractiveSummary\<close>\<close>

definition formatSummary :: "string \<Rightarrow> string" where
  "formatSummary summary =
     (let sentences = filter (\<lambda>s. length (trim s) > 0) (split_terminators summary);
          formatted = ''## '' @ emoji_memo @ '' Summary\<newline>\<newline>''
      in if length sentences > 3 then
           formatted @ ''### Key Points:\<newline>'' @ numbered (map trim (take 3 sentences)) @
           ''\<newline>### Additional Details:\<newline>'' @
           concat (map (\<lambda>s. bullet @ '' '' @ trim s @ ''.\<newline>'') (drop 3 sentences))
         else formatted @ numbered (map trim sentences))"

definition keyWords :: "string list" where
  "keyWords = [''important'', ''key'', ''main'', ''primary'', ''essential'', ''significant'', ''crucial'']"

text \<open>\<open>text.split(/[.!?]+/).filter(s => s.trim().length > 15)\<close>\<close>

definition sentences_of :: "string \<Rightarrow> string list" where
  "sentences_of text = filter (\<lambda>s. length (trim s) > 15) (split_terminators text)"

text \<open>The score the \<open>map\<close> callback gives the sentence at \<open>index\<close> of \<open>n\<close> sentences:
  2 for the first and the last one, 1 for every keyword the lower-cased sentence includes,
  1 for a length strictly between 30 and 300 (of the untrimmed piece).\<close>

definition score_of :: "nat \<Rightarrow> nat \<Rightarrow> string \<Rightarrow> int" where
  "score_of n index s =
     (if index = 0 \<or> index = n - 1 then 2 else 0)
     + int (length (filter (\<lambda>keyword. str_includes (toLowerCase s) keyword) keyWords))
     + (if length s > 30 \<and> length s < 300 then 1 else 0)"

record scored =
  sentence :: string
  score :: int

definition scoredSentences :: "string \<Rightarrow> scored list" where
  "scoredSentences text =
     (let sentences = sentences_of text
      in map (\<lambda>(index, s). \<lparr>sentence = trim s, score = score_of (length sentences) index s\<rparr>)
           (enumerate 0 sentences))"

text \<open>
  \<open>scoredSentences.sort((a, b) => b.score - a.score).slice(0, Math.min(8, sentences.length))
  .map(item => item.sentence)\<close>. \<open>Array.prototype.sort\<close> is stable, and so is
  \<^const>\<open>sort_key\<close>; the comparator orders by descending score, that is by ascending
  negated score.
\<close>

definition topSentences :: "string \<Rightarrow> string list" where
  "topSentences text =
     map sentence
       (take (min 8 (length (sentences_of text)))
          (sort_key (\<lambda>item. - score item) (scoredSentences text)))"

definition createExtractiveSummary :: "string \<Rightarrow> string" where
  "createExtractiveSummary text = ''## '' @ emoji_memo @ '' Summary\<newline>\<newline>'' @ numbered (topSentences text)"

section \<open>Quizzes: \<open>createQuizPrompt\<close>, \<open>parseQuizFromText\<close>, \<open>generateMockQuiz\<close>\<close>

datatype difficulty = Easy | Medium | Hard

fun difficulty_name :: "difficulty \<Rightarrow> string" where
  "difficulty_name Easy = ''easy''"
| "difficulty_name Medium = ''medium''"
| "difficulty_name Hard = ''hard''"

datatype question_type = Mcq | Short_answer

text \<open>A question object; \<open>q_options\<close> is \<open>None\<close> where the object has no \<open>options\<close> field.\<close>

record quiz_question =
  q_type :: question_type
  q_question :: string
  q_options :: "string list option"
  q_answer :: string
  q_difficulty :: difficulty

fun difficultyInstructions :: "difficulty \<Rightarrow> string" where
  "difficultyInstructions Easy = ''Create simple, straightforward questions that test basic understanding.''"
| "difficultyInstructions Medium = ''Create moderately challenging questions that require some analysis.''"
| "difficultyInstructions Hard = ''Create complex questions that require deep understanding and critical thinking.''"

definition createQuizPrompt :: "string \<Rightarrow> difficulty \<Rightarrow> string" where
  \<open>createQuizPrompt text difficulty =
     ''\<newline>'' @
     ''Based on this text, create 10 quiz questions ('' @ difficulty_name difficulty @ '' difficulty):\<newline>'' @
     ''\<newline>'' @
     ''"'' @ substring0 800 text @ ''"\<newline>'' @
     ''\<newline>'' @
     difficultyInstructions difficulty @ ''\<newline>'' @
     ''\<newline>'' @
     ''Format: Mix of multiple choice (4 options) and short answer questions.\<newline>''\<close>

text \<open>
  \<open>parseQuizFromText\<close> draws \<open>Math.random() > 0.5\<close> once per line; \<open>coin i\<close> is the outcome
  of the draw at iteration \<open>i\<close>.
\<close>

definition parseQuizFromText :: "(nat \<Rightarrow> bool) \<Rightarrow> string \<Rightarrow> difficulty \<Rightarrow> quiz_question list" where
  "parseQuizFromText coin text difficulty =
     (let lines = filter (\<lambda>line. trim line \<noteq> []) (split_lines text)
      in map (\<lambda>i.
           if coin i then
             \<lparr>q_type = Mcq,
              q_question = ''Based on the content, '' @ lines ! i @ ''?'',
              q_options = Some [''Option A'', ''Option B'', ''Option C'', ''Option D''],
              q_answer = ''Option A'',
              q_difficulty = difficulty\<rparr>
           else
             \<lparr>q_type = Short_answer,
              q_question = ''Explain: '' @ lines ! i,
              q_options = None,
              q_answer = ''Sample answer based on the content provided.'',
              q_difficulty = difficulty\<rparr>)
         [0..<min 10 (length lines)])"

fun questionStarters :: "difficulty \<Rightarrow> string list" where
  "questionStarters Easy =
     [''What is mentioned about'',
      ''According to the text, what is'',
      ''The text states that'',
      ''Which of the following is true'']"
| "questionStarters Medium =
     [''How does the text explain'',
      ''What can be inferred about'',
      ''The relationship between'',
      ''Why does the author suggest'']"
| "questionStarters Hard =
     [''Critically analyze the concept of'',
      ''Evaluate the effectiveness of'',
      ''Compare and contrast the ideas about'',
      ''What are the implications of'']"

text \<open>The body of the loop \<open>for (let i = 0; i < 10; i++)\<close> of \<open>generateMockQuiz\<close>: the
  question pushed at index \<open>i\<close>.\<close>

definition mock_question :: "difficulty \<Rightarrow> nat \<Rightarrow> quiz_question" where
  "mock_question difficulty i =
     (let starters = questionStarters difficulty
      in if i mod 3 = 0 then
           \<lparr>q_type = Short_answer,
            q_question = starters ! (i mod length starters) @ '' the main concepts discussed in the text?'',
            q_options = None,
            q_answer = ''This question requires analysis of the key concepts presented in the study material.'',
            q_difficulty = difficulty\<rparr>
         else
           \<lparr>q_type = Mcq,
            q_question = starters ! (i mod length starters) @ '' the primary focus of this material?'',
            q_options = Some
              [''The main concept discussed in the text'',
               ''A secondary topic mentioned briefly'',
               ''An unrelated concept'',
               ''None of the above''],
            q_answer = ''The main concept discussed in the text'',
            q_difficulty = difficulty\<rparr>)"

definition generateMockQuiz :: "string \<Rightarrow> difficulty \<Rightarrow> quiz_question list" where
  "generateMockQuiz text difficulty = map (mock_question difficulty) [0..<10]"

section \<open>Homework help: prompt, \<open>formatHomeworkResponse\<close>, \<open>generateMockHomeworkHelp\<close>\<close>

text \<open>
  A subject is the string the caller passes; the tab offers \<open>mathematics\<close>, \<open>science\<close>,
  \<open>essay\<close> and \<open>general\<close>. The object lookup \<open>templates[subject] || templates.general\<close>
  is a lookup in an association list that falls back to the general entry (names inherited
  from \<open>Object.prototype\<close> are not modelled).
\<close>

definition subjectInstructions :: "string \<Rightarrow> string" where
  "subjectInstructions subject =
     (case map_of
        [(''mathematics'', ''Provide step-by-step mathematical solution with clear explanations.''),
         (''science'', ''Explain the scientific concepts and principles involved.''),
         (''essay'', ''Provide essay structure guidance and writing tips.''),
         (''general'', ''Provide clear, educational explanation.'')] subject of
        Some instruction \<Rightarrow> instruction
      | None \<Rightarrow> ''undefined'')"

definition createHomeworkPrompt :: "string \<Rightarrow> string \<Rightarrow> string" where
  \<open>createHomeworkPrompt question subject =
     ''\<newline>'' @
     ''Question: '' @ question @ ''\<newline>'' @
     ''Subject: '' @ subject @ ''\<newline>'' @
     ''\<newline>'' @
     subjectInstructions subject @ ''\<newline>'' @
     ''\<newline>'' @
     ''Please provide a detailed, educational response suitable for Nigerian university students.\<newline>''\<close>

definition formatHomeworkResponse_templates :: "string \<Rightarrow> (string \<times> string) list" where
  \<open>formatHomeworkResponse_templates response =
   [(''mathematics'',
     ''## '' @ emoji_1234 @ '' Step-by-Step Solution\<newline>'' @
     ''\<newline>'' @
     ''### Understanding the Problem\<newline>'' @
     response @ ''\<newline>'' @
     ''\<newline>'' @
     ''### Solution Steps\<newline>'' @
     ''1. Identify given information\<newline>'' @
     ''2. Apply relevant formulas\<newline>'' @
     ''3. Calculate step by step\<newline>'' @
     ''4. Verify the answer\<newline>'' @
     ''\<newline>'' @
     ''### Study Tips\<newline>'' @
     bullet @ '' Practice similar problems\<newline>'' @
     bullet @ '' Memorize key formulas\<newline>'' @
     bullet @ '' Check your work''),
    (''science'',
     ''## '' @ emoji_microscope @ '' Scientific Explanation\<newline>'' @
     ''\<newline>'' @
     ''### Core Concepts\<newline>'' @
     response @ ''\<newline>'' @
     ''\<newline>'' @
     ''### Key Principles\<newline>'' @
     bullet @ '' Fundamental laws involved\<newline>'' @
     bullet @ '' Real-world applications\<newline>'' @
     bullet @ '' Common misconceptions\<newline>'' @
     ''\<newline>'' @
     ''### Further Study\<newline>'' @
     bullet @ '' Review related topics\<newline>'' @
     bullet @ '' Conduct experiments\<newline>'' @
     bullet @ '' Connect to daily life''),
    (''essay'',
     ''## '' @ emoji_writing_hand @ variation_selector @ '' Essay Writing Guide\<newline>'' @
     ''\<newline>'' @
     ''### Structure Recommendation\<newline>'' @
     response @ ''\<newline>'' @
     ''\<newline>'' @
     ''### Writing Tips\<newline>'' @
     bullet @ '' Clear thesis statement\<newline>'' @
     bullet @ '' Strong supporting evidence\<newline>'' @
     bullet @ '' Logical flow of ideas\<newline>'' @
     bullet @ '' Compelling conclusion\<newline>'' @
     ''\<newline>'' @
     ''### Nigerian Context\<newline>'' @
     bullet @ '' Use local examples\<newline>'' @
     bullet @ '' Consider cultural perspectives\<newline>'' @
     bullet @ '' Address relevant issues''),
    (''general'',
     ''## '' @ emoji_books @ '' Detailed Explanation\<newline>'' @
     ''\<newline>'' @
     response @ ''\<newline>'' @
     ''\<newline>'' @
     ''### Key Takeaways\<newline>'' @
     bullet @ '' Main concepts to remember\<newline>'' @
     bullet @ '' Practical applications\<newline>'' @
     bullet @ '' Study recommendations'')]\<close>

definition formatHomeworkResponse :: "string \<Rightarrow> string \<Rightarrow> string" where
  "formatHomeworkResponse response subject =
     (case map_of (formatHomeworkResponse_templates response) subject of
        Some template \<Rightarrow> template
      | None \<Rightarrow> the (map_of (formatHomeworkResponse_templates response) ''general''))"

definition generateMockHomeworkHelp_responses :: "string \<Rightarrow> (string \<times> string) list" where
  \<open>generateMockHomeworkHelp_responses question =
   [(''mathematics'',
     ''## '' @ emoji_1234 @ '' Step-by-Step Solution\<newline>'' @
     ''\<newline>'' @
     ''### Understanding the Problem\<newline>'' @
     ''Let's break down your question: "'' @ question @ ''"\<newline>'' @
     ''\<newline>'' @
     ''### Solution Approach\<newline>'' @
     ''1. **Identify what we know**: Extract the given information\<newline>'' @
     ''2. **Determine what we need to find**: Clarify the objective\<newline>'' @
     ''3. **Choose the right method**: Select appropriate formulas or techniques\<newline>'' @
     ''4. **Solve systematically**: Work through each step carefully\<newline>'' @
     ''5. **Verify the answer**: Check if the result makes sense\<newline>'' @
     ''\<newline>'' @
     ''### Nigerian Exam Context\<newline>'' @
     ''This type of question commonly appears in:\<newline>'' @
     bullet @ '' JAMB Mathematics\<newline>'' @
     bullet @ '' University entrance exams\<newline>'' @
     bullet @ '' Course assessments\<newline>'' @
     ''\<newline>'' @
     ''### Study Tips\<newline>'' @
     bullet @ '' Practice similar problems daily\<newline>'' @
     bullet @ '' Understand the concept, don't just memorize\<newline>'' @
     bullet @ '' Show all working steps in exams''),
    (''science'',
     ''## '' @ emoji_microscope @ '' Scientific Explanation\<newline>'' @
     ''\<newline>'' @
     ''### Core Concept Analysis\<newline>'' @
     ''Your question "'' @ question @ ''" involves important scientific principles.\<newline>'' @
     ''\<newline>'' @
     ''### Key Scientific Principles\<newline>'' @
     bullet @ '' **Fundamental Laws**: The underlying scientific laws that apply\<newline>'' @
     bullet @ '' **Cause and Effect**: How different factors interact\<newline>'' @
     bullet @ '' **Real-world Applications**: Where you see this in daily life\<newline>'' @
     ''\<newline>'' @
     ''### Nigerian Educational Context\<newline>'' @
     ''This concept is relevant to:\<newline>'' @
     bullet @ '' WAEC Science subjects\<newline>'' @
     bullet @ '' University science courses\<newline>'' @
     bullet @ '' Practical applications in Nigeria\<newline>'' @
     ''\<newline>'' @
     ''### Study Strategy\<newline>'' @
     bullet @ '' Connect theory to practical examples\<newline>'' @
     bullet @ '' Use diagrams and visual aids\<newline>'' @
     bullet @ '' Relate to local environmental examples''),
    (''essay'',
     ''## '' @ emoji_writing_hand @ variation_selector @ '' Essay Writing Guidance\<newline>'' @
     ''\<newline>'' @
     ''### Analyzing Your Topic\<newline>'' @
     ''"'' @ question @ ''" requires a structured approach to essay writing.\<newline>'' @
     ''\<newline>'' @
     ''### Recommended Structure\<newline>'' @
     ''1. **Introduction** (1 paragraph)\<newline>'' @
     ''   '' @ bullet @ '' Hook to grab attention\<newline>'' @
     ''   '' @ bullet @ '' Background context\<newline>'' @
     ''   '' @ bullet @ '' Clear thesis statement\<newline>'' @
     ''\<newline>'' @
     ''2. **Body Paragraphs** (2-3 paragraphs)\<newline>'' @
     ''   '' @ bullet @ '' One main idea per paragraph\<newline>'' @
     ''   '' @ bullet @ '' Evidence and examples\<newline>'' @
     ''   '' @ bullet @ '' Nigerian context where relevant\<newline>'' @
     ''\<newline>'' @
     ''3. **Conclusion** (1 paragraph)\<newline>'' @
     ''   '' @ bullet @ '' Summarize key points\<newline>'' @
     ''   '' @ bullet @ '' Restate thesis\<newline>'' @
     ''   '' @ bullet @ '' Call to action or final thought\<newline>'' @
     ''\<newline>'' @
     ''### Nigerian Writing Context\<newline>'' @
     bullet @ '' Use local examples and case studies\<newline>'' @
     bullet @ '' Consider cultural perspectives\<newline>'' @
     bullet @ '' Address issues relevant to Nigerian society\<newline>'' @
     ''\<newline>'' @
     ''### Writing Tips\<newline>'' @
     bullet @ '' Write clearly and concisely\<newline>'' @
     bullet @ '' Use transition words\<newline>'' @
     bullet @ '' Proofread carefully''),
    (''general'',
     ''## '' @ emoji_books @ '' Comprehensive Explanation\<newline>'' @
     ''\<newline>'' @
     ''### Question Analysis\<newline>'' @
     ''Let me help you understand: "'' @ question @ ''"\<newline>'' @
     ''\<newline>'' @
     ''### Key Concepts\<newline>'' @
     bullet @ '' **Main Idea**: The central concept you need to grasp\<newline>'' @
     bullet @ '' **Supporting Details**: Important facts and information\<newline>'' @
     bullet @ '' **Connections**: How this relates to other topics\<newline>'' @
     ''\<newline>'' @
     ''### Learning Strategy\<newline>'' @
     ''1. Break down complex ideas into smaller parts\<newline>'' @
     ''2. Use examples to understand abstract concepts\<newline>'' @
     ''3. Practice applying the knowledge\<newline>'' @
     ''4. Connect to real-world situations\<newline>'' @
     ''\<newline>'' @
     ''### Nigerian Educational Context\<newline>'' @
     ''This topic is important for:\<newline>'' @
     bullet @ '' Academic success in Nigerian institutions\<newline>'' @
     bullet @ '' Practical application in local context\<newline>'' @
     bullet @ '' Building foundational knowledge\<newline>'' @
     ''\<newline>'' @
     ''### Next Steps\<newline>'' @
     bullet @ '' Review related materials\<newline>'' @
     bullet @ '' Practice with similar questions\<newline>'' @
     bullet @ '' Discuss with classmates or teachers'')]\<close>

definition generateMockHomeworkHelp :: "string \<Rightarrow> string \<Rightarrow> string" where
  "generateMockHomeworkHelp question subject =
     (case map_of (generateMockHomeworkHelp_responses question) subject of
        Some response \<Rightarrow> response
      | None \<Rightarrow> the (map_of (generateMockHomeworkHelp_responses question) ''general''))"

section \<open>The generation functions: \<open>summarizeText\<close>, \<open>generateQuiz\<close>, \<open>getHomeworkHelp\<close>\<close>

text \<open>\<open>try { body } catch (error) { handler }\<close> on results: \<open>Inl\<close> is a thrown error.\<close>

definition try_catch :: "'e + 'a \<Rightarrow> ('e \<Rightarrow> 'e + 'a) \<Rightarrow> 'e + 'a" where
  "try_catch body handler = (case body of Inl error \<Rightarrow> handler error | Inr v \<Rightarrow> Inr v)"

text \<open>\<open>result?.[0]\<close>: the first output, when the result is a non-empty array.\<close>

fun first_output :: "hf_data option \<Rightarrow> hf_output option" where
  "first_output (Some (Outputs (out # outs))) = Some out"
| "first_output (Some (Outputs [])) = None"
| "first_output (Some (ErrorBody e)) = None"
| "first_output None = None"

text \<open>The truthiness test of \<open>if (result?.[0]?.summary_text)\<close>: the field is present and
  is not the empty string.\<close>

fun truthy :: "string option \<Rightarrow> string option" where
  "truthy (Some s) = (if s = [] then None else Some s)"
| "truthy None = None"

definition first_summary_text :: "hf_data option \<Rightarrow> string option" where
  "first_summary_text result =
     (case first_output result of Some out \<Rightarrow> truthy (summary_text out) | None \<Rightarrow> None)"

definition first_generated_text :: "hf_data option \<Rightarrow> string option" where
  "first_generated_text result =
     (case first_output result of Some out \<Rightarrow> truthy (generated_text out) | None \<Rightarrow> None)"

text \<open>The call each function makes through the invoker (\<open>const result = await
  callHFWithRetry(...)\<close>, with the default of three attempts): what it returns or throws.\<close>

definition summarizeText_primary :: "hf_api \<Rightarrow> string \<Rightarrow> js_error + hf_data option" where
  "summarizeText_primary api text =
     fst (callHFWithRetry api ''facebook/bart-large-cnn'' (substring0 4096 text)
            [(''max_length'', ''300''), (''min_length'', ''80''), (''do_sample'', ''false'')] 3)"

definition generateQuiz_primary :: "hf_api \<Rightarrow> string \<Rightarrow> difficulty \<Rightarrow> js_error + hf_data option" where
  "generateQuiz_primary api text difficulty =
     (let prompt = createQuizPrompt text difficulty
      in fst (callHFWithRetry api ''microsoft/DialoGPT-medium'' prompt
                [(''max_length'', ''1000''), (''temperature'', ''0.7''), (''do_sample'', ''true'')] 3))"

definition getHomeworkHelp_primary :: "hf_api \<Rightarrow> string \<Rightarrow> string \<Rightarrow> js_error + hf_data option" where
  "getHomeworkHelp_primary api question subject =
     (let prompt = createHomeworkPrompt question subject
      in fst (callHFWithRetry api ''microsoft/DialoGPT-medium'' prompt
                [(''max_length'', ''800''), (''temperature'', ''0.3''), (''do_sample'', ''true'')] 3))"

definition summarizeText :: "hf_api \<Rightarrow> string \<Rightarrow> js_error + string" where
  "summarizeText api text =
     try_catch
       (case summarizeText_primary api text of
          Inl error \<Rightarrow> Inl error
        | Inr result \<Rightarrow>
            (case first_summary_text result of
               Some summary \<Rightarrow> Inr (formatSummary summary)
             | None \<Rightarrow> Inr (createExtractiveSummary text)))
       (\<lambda>error. Inr (createExtractiveSummary text))"

definition generateQuiz :: "hf_api \<Rightarrow> (nat \<Rightarrow> bool) \<Rightarrow> string \<Rightarrow> difficulty \<Rightarrow> js_error + quiz_question list" where
  "generateQuiz api coin text difficulty =
     try_catch
       (case generateQuiz_primary api text difficulty of
          Inl error \<Rightarrow> Inl error
        | Inr result \<Rightarrow>
            (case first_generated_text result of
               Some generated \<Rightarrow>
                 try_catch
                   (let quizData = parseQuizFromText coin generated difficulty
                    in Inr (if length quizData > 0 then quizData else generateMockQuiz text difficulty))
                   (\<lambda>error. Inr (generateMockQuiz text difficulty))
             | None \<Rightarrow> Inr (generateMockQuiz text difficulty)))
       (\<lambda>error. Inr (generateMockQuiz text difficulty))"

definition getHomeworkHelp :: "hf_api \<Rightarrow> string \<Rightarrow> string \<Rightarrow> js_error + string" where
  "getHomeworkHelp api question subject =
     try_catch
       (case getHomeworkHelp_primary api question subject of
          Inl error \<Rightarrow> Inl error
        | Inr result \<Rightarrow>
            (case first_generated_text result of
               Some generated \<Rightarrow> Inr (formatHomeworkResponse generated subject)
             | None \<Rightarrow> Inr (generateMockHomeworkHelp question subject)))
       (\<lambda>error. Inr (generateMockHomeworkHelp question subject))"

text \<open>The primary generator failed terminally: the invoker threw, or what it returned has
  no usable text in the field the function reads.\<close>

definition primary_failed :: "(hf_data option \<Rightarrow> string option) \<Rightarrow> js_error + hf_data option \<Rightarrow> bool" where
  "primary_failed field r = (case r of Inl error \<Rightarrow> True | Inr result \<Rightarrow> field result = None)"

section \<open>The usage store: table \<open>daily_usage\<close> behind the Supabase client\<close>

record daily_usage =
  total_count :: int
  last_reset :: int

text \<open>
  Times are milliseconds since the epoch, as \<open>getTime()\<close> gives them. A row is keyed by
  \<open>user_id\<close> and \<open>date\<close> (unique index); the date \<open>new Date().toISOString().split('T')[0]\<close>
  is the UTC day, here its number.
\<close>

type_synonym usage_key = "string \<times> int"

definition today :: "int \<Rightarrow> int" where
  "today now = now div 86400000"

text \<open>
  The client answers \<open>{ data, error }\<close>: \<open>Data\<close> is a row with no error, \<open>PgError\<close> is
  \<open>data = null\<close> with the error's code, \<open>Rejected\<close> is a rejected promise. The store is
  reachable (\<open>Online\<close>) or not; an unreachable store answers every query with an error
  whose code is empty, or rejects.
\<close>

datatype 'a reply = Data 'a | PgError string | Rejected

datatype link = Online | Offline | Rejecting

record backend =
  rows :: "usage_key \<Rightarrow> daily_usage option"
  link :: link

text \<open>\<open>.select('*').eq(...).eq(...).single()\<close>: code \<open>PGRST116\<close> when no row matches.\<close>

definition select_single :: "backend \<Rightarrow> usage_key \<Rightarrow> daily_usage reply" where
  "select_single b k =
     (case link b of
        Online \<Rightarrow> (case rows b k of Some r \<Rightarrow> Data r | None \<Rightarrow> PgError ''PGRST116'')
      | Offline \<Rightarrow> PgError []
      | Rejecting \<Rightarrow> Rejected)"

text \<open>\<open>.insert(row).select().single()\<close>: code \<open>23505\<close> on the unique index.\<close>

definition insert_single :: "backend \<Rightarrow> usage_key \<Rightarrow> daily_usage \<Rightarrow> daily_usage reply \<times> backend" where
  "insert_single b k r =
     (case link b of
        Online \<Rightarrow>
          (case rows b k of
             None \<Rightarrow> (Data r, b\<lparr>rows := (rows b)(k \<mapsto> r)\<rparr>)
           | Some old \<Rightarrow> (PgError ''23505'', b))
      | Offline \<Rightarrow> (PgError [], b)
      | Rejecting \<Rightarrow> (Rejected, b))"

text \<open>\<open>.update(fields).eq(...).eq(...).select().single()\<close>\<close>

definition update_single ::
  "backend \<Rightarrow> usage_key \<Rightarrow> (daily_usage \<Rightarrow> daily_usage) \<Rightarrow> daily_usage reply \<times> backend" where
  "update_single b k f =
     (case link b of
        Online \<Rightarrow>
          (case rows b k of
             Some r \<Rightarrow> (Data (f r), b\<lparr>rows := (rows b)(k \<mapsto> f r)\<rparr>)
           | None \<Rightarrow> (PgError ''PGRST116'', b))
      | Offline \<Rightarrow> (PgError [], b)
      | Rejecting \<Rightarrow> (Rejected, b))"

section \<open>The quota hook: \<open>useUsageLimits\<close> (src/hooks/useUsageLimits.ts)\<close>

text \<open>The state of one instance of the hook, with the \<open>useState\<close> initial values.\<close>

record hook =
  userId :: string
  totalUsage :: int
  canUse :: bool
  timeUntilReset :: int
  loading :: bool

definition useUsageLimits :: "string \<Rightarrow> hook" where
  "useUsageLimits user = \<lparr>userId = user, totalUsage = 0, canUse = True, timeUntilReset = 0, loading = True\<rparr>"

definition sixHours :: int where
  "sixHours = 6 * 60 * 60 * 1000"

definition calculateTimeUntilReset :: "int \<Rightarrow> int \<Rightarrow> int" where
  "calculateTimeUntilReset now lastReset = max 0 (lastReset + 6 * 60 * 60 * 1000 - now)"

definition remainingUses :: "hook \<Rightarrow> int" where
  "remainingUses h = max 0 (15 - totalUsage h)"

text \<open>Every function of the hook takes the clock reading \<open>now\<close>, the state of the instance and
  the store, and returns the state after the next render and the store. A thrown error is
  caught and logged, which changes neither.\<close>

definition resetUsage :: "int \<Rightarrow> hook \<Rightarrow> backend \<Rightarrow> hook \<times> backend" where
  "resetUsage now h b =
     (case update_single b (userId h, today now) (\<lambda>r. r\<lparr>total_count := 0, last_reset := now\<rparr>) of
        (Data d, b') \<Rightarrow> (h\<lparr>totalUsage := 0, canUse := True, timeUntilReset := 6 * 60 * 60 * 1000\<rparr>, b')
      | (PgError code, b') \<Rightarrow> (h, b')
      | (Rejected, b') \<Rightarrow> (h, b'))"

definition loadUsageData :: "int \<Rightarrow> hook \<Rightarrow> backend \<Rightarrow> hook \<times> backend" where
  "loadUsageData now h b =
     (case select_single b (userId h, today now) of
        PgError code \<Rightarrow>
          if code = ''PGRST116'' then
            (case insert_single b (userId h, today now) \<lparr>total_count = 0, last_reset = now\<rparr> of
               (Data newData, b') \<Rightarrow>
                 (h\<lparr>totalUsage := 0, canUse := True,
                    timeUntilReset := calculateTimeUntilReset now (last_reset newData),
                    loading := False\<rparr>, b')
             | (PgError code', b') \<Rightarrow> (h\<lparr>loading := False\<rparr>, b')
             | (Rejected, b') \<Rightarrow> (h\<lparr>loading := False\<rparr>, b'))
          else (h\<lparr>loading := False\<rparr>, b)
      | Data d \<Rightarrow>
          (let h1 = h\<lparr>totalUsage := total_count d\<rparr>;
               timeSinceReset = now - last_reset d
           in if timeSinceReset \<ge> sixHours \<and> total_count d \<ge> 15 then
                (let (h2, b2) = resetUsage now h1 b in (h2\<lparr>loading := False\<rparr>, b2))
              else
                (h1\<lparr>canUse := total_count d < 15,
                    timeUntilReset := calculateTimeUntilReset now (last_reset d),
                    loading := False\<rparr>, b))
      | Rejected \<Rightarrow> (h\<lparr>loading := False\<rparr>, b))"

definition incrementUsage :: "int \<Rightarrow> hook \<Rightarrow> backend \<Rightarrow> bool \<times> hook \<times> backend" where
  "incrementUsage now h b =
     (if \<not> canUse h then (False, h, b)
      else
        (case update_single b (userId h, today now) (\<lambda>r. r\<lparr>total_count := totalUsage h + 1\<rparr>) of
           (Data d, b') \<Rightarrow> (True, h\<lparr>totalUsage := total_count d, canUse := total_count d < 15\<rparr>, b')
         | (PgError code, b') \<Rightarrow> (False, h, b')
         | (Rejected, b') \<Rightarrow> (False, h, b')))"

section \<open>The profile hook: \<open>canUseFeature\<close> of \<open>useProfile\<close>\<close>

record profile =
  subscription_type :: string
  quiz_count :: int
  summary_count :: int
  homework_count :: int

datatype feature = Quiz | Summary | Homework

fun limits :: "feature \<Rightarrow> int" where
  "limits Quiz = 3"
| "limits Summary = 2"
| "limits Homework = 1"

fun feature_count :: "profile \<Rightarrow> feature \<Rightarrow> int" where
  "feature_count p Quiz = quiz_count p"
| "feature_count p Summary = summary_count p"
| "feature_count p Homework = homework_count p"

fun canUseFeature :: "profile option \<Rightarrow> feature \<Rightarrow> bool" where
  "canUseFeature None t = False"
| "canUseFeature (Some p) t =
     (if subscription_type p = ''premium'' then True else feature_count p t < limits t)"

section \<open>The request handlers of the tabs\<close>

text \<open>
  What a handler leaves in the conversation: nothing (the request is ignored), the
  generated content, or the assistant's failure message.
\<close>

datatype 'a response = Ignored | Answer 'a | Complaint

text \<open>\<open>handleSummarize\<close> (SummarizerTab), \<open>handleGenerateQuiz\<close> (QuizTab) and
  \<open>handleGetHelp\<close> (HomeworkTab). None of them reads the profile.\<close>

definition handleSummarize ::
  "hf_api \<Rightarrow> int \<Rightarrow> string \<Rightarrow> hook \<Rightarrow> backend \<Rightarrow> string response \<times> hook \<times> backend" where
  "handleSummarize api now content h b =
     (if trim content = [] \<or> \<not> canUse h then (Ignored, h, b)
      else
        (case summarizeText api content of
           Inr summary \<Rightarrow> (let (success, h', b') = incrementUsage now h b in (Answer summary, h', b'))
         | Inl error \<Rightarrow> (Complaint, h, b)))"

definition handleGenerateQuiz ::
  "hf_api \<Rightarrow> (nat \<Rightarrow> bool) \<Rightarrow> int \<Rightarrow> string \<Rightarrow> difficulty \<Rightarrow> hook \<Rightarrow> backend
     \<Rightarrow> quiz_question list response \<times> hook \<times> backend" where
  "handleGenerateQuiz api coin now content difficulty h b =
     (if trim content = [] \<or> \<not> canUse h then (Ignored, h, b)
      else
        (case generateQuiz api coin content difficulty of
           Inr questions \<Rightarrow>
             if length questions > 0 then
               (let (success, h', b') = incrementUsage now h b in (Answer questions, h', b'))
             else (Complaint, h, b)
         | Inl error \<Rightarrow> (Complaint, h, b)))"

definition handleGetHelp ::
  "hf_api \<Rightarrow> int \<Rightarrow> string \<Rightarrow> string \<Rightarrow> hook \<Rightarrow> backend \<Rightarrow> string response \<times> hook \<times> backend" where
  "handleGetHelp api now question subject h b =
     (if trim question = [] \<or> \<not> canUse h then (Ignored, h, b)
      else
        (case getHomeworkHelp api question subject of
           Inr explanation \<Rightarrow> (let (success, h', b') = incrementUsage now h b in (Answer explanation, h', b'))
         | Inl error \<Rightarrow> (Complaint, h, b)))"

section \<open>Vocabulary of the claims about the extractive summary\<close>

text \<open>
  Sentence \<open>i\<close> ranks before sentence \<open>j\<close> (both are indices into \<open>scoredSentences\<close>, that
  is document positions): it has the higher score, or the same score and comes first in
  the document.
\<close>

definition ranks_before :: "string \<Rightarrow> nat \<Rightarrow> nat \<Rightarrow> bool" where
  "ranks_before text i j \<longleftrightarrow>
     score (scoredSentences text ! i) > score (scoredSentences text ! j)
     \<or> (score (scoredSentences text ! i) = score (scoredSentences text ! j) \<and> i < j)"

text \<open>Two texts used as concrete inputs, of three and of ten qualifying sentences.\<close>

definition three_sentences :: string where
  "three_sentences = ''The first sentence is here. A plain middle sentence. The last sentence is here.''"

definition ten_sentences :: string where
  "ten_sentences =
     ''Plants make their food. It is an important process. Light is the main input. ''
     @ ''Water enters by the roots. Leaves take in the air. The key step needs light. ''
     @ ''Sugar is then produced. Oxygen leaves the plant. Animals breathe that gas. ''
     @ ''This closes the cycle.''"

section \<open>Scenarios for the claims about the quota\<close>

text \<open>\<open>n\<close> successive calls of \<open>incrementUsage\<close> on one instance of the hook, each after the
  render that follows the previous one: the results in order, the final state, the store.\<close>

fun incrementUsage_times :: "nat \<Rightarrow> int \<Rightarrow> hook \<Rightarrow> backend \<Rightarrow> bool list \<times> hook \<times> backend" where
  "incrementUsage_times 0 now h b = ([], h, b)"
| "incrementUsage_times (Suc n) now h b =
     (let (ok, h', b') = incrementUsage now h b;
          (oks, h'', b'') = incrementUsage_times n now h' b'
      in (ok # oks, h'', b''))"

text \<open>Two instances of the hook for one user (two tabs, or two devices) over one store:
  both mount and load, then each records one use. The results of the two
  \<open>incrementUsage\<close> calls, and the store at the end.\<close>

definition two_instances :: "int \<Rightarrow> string \<Rightarrow> backend \<Rightarrow> bool \<times> bool \<times> backend" where
  "two_instances now user b0 =
     (let (h1, b1) = loadUsageData now (useUsageLimits user) b0;
          (h2, b2) = loadUsageData now (useUsageLimits user) b1;
          (ok1, h1', b3) = incrementUsage now h1 b2;
          (ok2, h2', b4) = incrementUsage now h2 b3
      in (ok1, ok2, b4))"

text \<open>
  The clock reads 08:00 UTC of day 1 (115200000 ms). A store holding the record of user
  \<open>u1\<close> for that day with the given count and time of last reset; 01:00 is 90000000 ms,
  07:00 is 111600000 ms.
\<close>

definition eight_o_clock :: int where
  "eight_o_clock = 115200000"

definition store_with :: "int \<Rightarrow> int \<Rightarrow> backend" where
  "store_with count lastReset =
     \<lparr>rows = Map.empty((''u1'', 1) \<mapsto> \<lparr>total_count = count, last_reset = lastReset\<rparr>), link = Online\<rparr>"

definition unreachable_store :: backend where
  "unreachable_store = \<lparr>rows = Map.empty, link = Offline\<rparr>"

definition rejecting_store :: backend where
  "rejecting_store = \<lparr>rows = Map.empty, link = Rejecting\<rparr>"

definition premium_profile :: profile where
  "premium_profile = \<lparr>subscription_type = ''premium'', quiz_count = 20, summary_count = 20, homework_count = 20\<rparr>"

text \<open>A service that answers every summarisation request with one summary.\<close>

definition healthy_api :: hf_api where
  "healthy_api model inputs params n =
     Responded (Outputs [\<lparr>summary_text = Some ''Cells divide'', generated_text = None\<rparr>])"

text \<open>The draws of \<open>Math.random() > 0.5\<close> that all come out true.\<close>

definition heads :: "nat \<Rightarrow> bool" where
  "heads i = True"

section \<open>Properties of the invoker\<close>

declare retry_loop.simps [simp del]

lemma all_attempts_fail_iff:
  "all_attempts_fail post m \<longleftrightarrow> (\<forall>n. 1 \<le> n \<and> n \<le> m \<longrightarrow> fails_transiently (post n))"
  by (auto simp: all_attempts_fail_def list_all_iff)

lemma attempts_Cons [simp]:
  "attempts [] = 0"
  "attempts (Post n # tr) = Suc (attempts tr)"
  "attempts (Sleep ms # tr) = attempts tr"
  by (simp_all add: attempts_def)

lemma sleeps_Cons [simp]:
  "sleeps [] = []"
  "sleeps (Post n # tr) = sleeps tr"
  "sleeps (Sleep ms # tr) = ms # sleeps tr"
  by (simp_all add: sleeps_def)

lemma attempts_append [simp]: "attempts (xs @ ys) = attempts xs + attempts ys"
  by (simp add: attempts_def)

lemma sleeps_append [simp]: "sleeps (xs @ ys) = sleeps xs @ sleeps ys"
  by (simp add: sleeps_def)

text \<open>When every attempt from \<open>a\<close> on fails, the loop makes all the remaining attempts, and
  what comes out is decided by the kind of the last failure.\<close>

lemma retry_loop_all_fail:
  assumes "a \<le> m" and "\<forall>n. a \<le> n \<and> n \<le> m \<longrightarrow> fails_transiently (post n)"
  shows "fst (retry_loop post m a) =
           (case post m of
              Failed e \<Rightarrow> Inl (Error (''HuggingFace API failed after '' @ show_nat m @ '' attempts''))
            | Responded d \<Rightarrow> Inr (Some d))
         \<and> attempts (snd (retry_loop post m a)) = Suc m - a"
  using assms
proof (induction post m a rule: retry_loop.induct)
  case (1 post m a)
  show ?case
  proof (cases "a = m")
    case True
    then show ?thesis
      by (subst (1 2) retry_loop.simps) (simp split: attempt_result.splits)
  next
    case False
    with "1.prems" have lt: "a < m" and fa: "fails_transiently (post a)" by auto
    have rest: "\<forall>n. a + 1 \<le> n \<and> n \<le> m \<longrightarrow> fails_transiently (post n)"
      using "1.prems" by auto
    show ?thesis
    proof (cases "post a")
      case (Responded d)
      with fa have ld: "is_loading d" by simp
      from "1.IH"(1)[OF _ Responded _ _ rest] lt ld
      have ih: "fst (retry_loop post m (a + 1)) =
           (case post m of
              Failed e \<Rightarrow> Inl (Error (''HuggingFace API failed after '' @ show_nat m @ '' attempts''))
            | Responded d \<Rightarrow> Inr (Some d))
         \<and> attempts (snd (retry_loop post m (a + 1))) = Suc m - (a + 1)" by simp
      show ?thesis
        using ih lt ld Responded
        by (subst (1 2) retry_loop.simps) (simp add: split_beta)
    next
      case (Failed e)
      from "1.IH"(2)[OF _ Failed _ _ rest] lt
      have ih: "fst (retry_loop post m (a + 1)) =
           (case post m of
              Failed e \<Rightarrow> Inl (Error (''HuggingFace API failed after '' @ show_nat m @ '' attempts''))
            | Responded d \<Rightarrow> Inr (Some d))
         \<and> attempts (snd (retry_loop post m (a + 1))) = Suc m - (a + 1)" by simp
      show ?thesis
        using ih lt Failed
        by (subst (1 2) retry_loop.simps) (simp add: split_beta)
    qed
  qed
qed

text \<open>When every attempt from \<open>a\<close> on throws, the trace is fixed: a post and a wait of
  \<open>attempt * 1000\<close> per attempt but the last, then the last post and the error.\<close>

lemma retry_loop_all_thrown:
  assumes "1 \<le> a" "a \<le> m" and "\<forall>n. a \<le> n \<and> n \<le> m \<longrightarrow> post n = Failed e"
  shows "retry_loop post m a =
           (Inl (Error (''HuggingFace API failed after '' @ show_nat m @ '' attempts'')),
            concat (map (\<lambda>k. [Post k, Sleep (k * 1000)]) [a..<m]) @ [Post m])"
  using assms
proof (induction post m a rule: retry_loop.induct)
  case (1 post m a)
  have pa: "post a = Failed e" using "1.prems" by simp
  show ?case
  proof (cases "a = m")
    case True
    then show ?thesis using pa
      by (subst retry_loop.simps) simp
  next
    case False
    with "1.prems" have lt: "a < m" by simp
    have rest: "\<forall>n. a + 1 \<le> n \<and> n \<le> m \<longrightarrow> post n = Failed e"
      using "1.prems" by auto
    from "1.IH"(2)[OF _ pa False _ _ rest] lt "1.prems"
    have ih: "retry_loop post m (a + 1) =
           (Inl (Error (''HuggingFace API failed after '' @ show_nat m @ '' attempts'')),
            concat (map (\<lambda>k. [Post k, Sleep (k * 1000)]) [a + 1..<m]) @ [Post m])" by simp
    show ?thesis
      using ih lt pa
      by (subst retry_loop.simps) (simp add: upt_conv_Cons)
  qed
qed

lemma attempts_thrown_trace:
  "attempts (concat (map (\<lambda>k. [Post k, Sleep (k * 1000)]) ks)) = length ks"
  by (induction ks) simp_all

lemma sleeps_thrown_trace:
  "sleeps (concat (map (\<lambda>k. [Post k, Sleep (k * 1000)]) ks)) = map (\<lambda>k. k * 1000) ks"
  by (induction ks) simp_all

text \<open>
  Claim C3, as amended. When every one of the \<open>maxRetries \<ge> 1\<close> attempts fails (the post
  throws, or the service answers that the model is loading), \<open>callHFWithRetry\<close> makes
  exactly \<open>maxRetries\<close> posts. It throws \<open>HuggingFace API failed after maxRetries attempts\<close>
  when the last attempt threw; when the last attempt was answered with the loading
  payload, it returns that payload to its caller.
\<close>

theorem C3_exhaustion:
  assumes "1 \<le> maxRetries"
    and "all_attempts_fail (api model inputs params) maxRetries"
  shows "attempts (snd (callHFWithRetry api model inputs params maxRetries)) = maxRetries
       \<and> fst (callHFWithRetry api model inputs params maxRetries) =
           (case api model inputs params maxRetries of
              Failed e \<Rightarrow>
                Inl (Error (''HuggingFace API failed after '' @ show_nat maxRetries @ '' attempts''))
            | Responded d \<Rightarrow> Inr (Some d))"
proof -
  from assms(2) have "\<forall>n. 1 \<le> n \<and> n \<le> maxRetries \<longrightarrow> fails_transiently (api model inputs params n)"
    by (simp add: all_attempts_fail_iff)
  from retry_loop_all_fail[OF assms(1) this] show ?thesis
    by (simp add: callHFWithRetry_def)
qed

text \<open>The theorem at a service that rejects the credentials three times.\<close>

theorem C3_exhaustion_witness:
  "1 \<le> (3::nat) \<and> all_attempts_fail (always_unauthorized ''facebook/bart-large-cnn'' ''x'' []) 3
   \<and> attempts (snd (callHFWithRetry always_unauthorized ''facebook/bart-large-cnn'' ''x'' [] 3)) = 3
   \<and> fst (callHFWithRetry always_unauthorized ''facebook/bart-large-cnn'' ''x'' [] 3) =
       Inl (Error ''HuggingFace API failed after 3 attempts'')"
proof -
  have h1: "1 \<le> (3::nat)" by simp
  have h2: "all_attempts_fail (always_unauthorized ''facebook/bart-large-cnn'' ''x'' []) 3"
    by (simp add: all_attempts_fail_iff always_unauthorized_def)
  from C3_exhaustion[where api = always_unauthorized and model = "''facebook/bart-large-cnn''"
      and inputs = "''x''" and params = "[]" and maxRetries = 3, OF h1 h2] h2 show ?thesis
    by (simp add: always_unauthorized_def)
qed

text \<open>
  Claim C3 as stated fails: against a service that answers "loading" on all three
  attempts, nothing is thrown and the error payload is returned like a result.
\<close>

theorem C3_counterexample:
  "all_attempts_fail (always_loading ''facebook/bart-large-cnn'' ''x'' []) 3
   \<and> fst (callHFWithRetry always_loading ''facebook/bart-large-cnn'' ''x'' [] 3) =
       Inr (Some (ErrorBody ''Model facebook/bart-large-cnn is currently loading''))"
  by (simp add: all_attempts_fail_def callHFWithRetry_def always_loading_def retry_loop.simps upt_conv_Cons)

text \<open>
  Claim C4, as amended. \<open>callHFWithRetry\<close> does not tell a fatal error from a transient
  one: whatever error \<open>e\<close> the post throws at every attempt (a 400 or a 401 as well as a
  network failure), the invoker posts \<open>maxRetries\<close> times, waits \<open>attempt * 1000\<close> ms after
  each attempt but the last, and then throws.
\<close>

theorem C4_thrown_errors_are_retried:
  assumes "1 \<le> maxRetries"
    and "\<forall>n. 1 \<le> n \<and> n \<le> maxRetries \<longrightarrow> api model inputs params n = Failed e"
  shows "callHFWithRetry api model inputs params maxRetries =
           (Inl (Error (''HuggingFace API failed after '' @ show_nat maxRetries @ '' attempts'')),
            concat (map (\<lambda>k. [Post k, Sleep (k * 1000)]) [1..<maxRetries]) @ [Post maxRetries])
       \<and> attempts (snd (callHFWithRetry api model inputs params maxRetries)) = maxRetries
       \<and> sleeps (snd (callHFWithRetry api model inputs params maxRetries)) = map (\<lambda>k. k * 1000) [1..<maxRetries]"
proof -
  have eq: "callHFWithRetry api model inputs params maxRetries =
           (Inl (Error (''HuggingFace API failed after '' @ show_nat maxRetries @ '' attempts'')),
            concat (map (\<lambda>k. [Post k, Sleep (k * 1000)]) [1..<maxRetries]) @ [Post maxRetries])"
    unfolding callHFWithRetry_def
    by (rule retry_loop_all_thrown[OF _ assms(1) assms(2)]) simp
  show ?thesis
    using assms(1) by (simp add: eq attempts_thrown_trace sleeps_thrown_trace)
qed

text \<open>The theorem at a service that rejects the credentials (HTTP 401) three times.\<close>

theorem C4_thrown_errors_are_retried_witness:
  "callHFWithRetry always_unauthorized ''facebook/bart-large-cnn'' ''x'' [] 3 =
     (Inl (Error ''HuggingFace API failed after 3 attempts''),
      [Post 1, Sleep 1000, Post 2, Sleep 2000, Post 3])"
proof -
  have h1: "1 \<le> (3::nat)" by simp
  have h2: "\<forall>n. 1 \<le> n \<and> n \<le> 3 \<longrightarrow>
      always_unauthorized ''facebook/bart-large-cnn'' ''x'' [] n = Failed (HttpStatus 401)"
    by (simp add: always_unauthorized_def)
  have "[1..<3] = [1, 2::nat]" by (simp add: upt_conv_Cons)
  with C4_thrown_errors_are_retried[where api = always_unauthorized and model = "''facebook/bart-large-cnn''"
      and inputs = "''x''" and params = "[]" and maxRetries = 3, OF h1 h2] show ?thesis
    by simp
qed

text \<open>
  Claim C4 as stated fails: an authentication failure on the first attempt is followed by
  two more attempts and two waits.
\<close>

theorem C4_counterexample:
  "always_unauthorized ''facebook/bart-large-cnn'' ''x'' [] 1 = Failed (HttpStatus 401)
   \<and> attempts (snd (callHFWithRetry always_unauthorized ''facebook/bart-large-cnn'' ''x'' [] 3)) = 3
   \<and> sleeps (snd (callHFWithRetry always_unauthorized ''facebook/bart-large-cnn'' ''x'' [] 3)) = [1000, 2000]"
  by (simp add: callHFWithRetry_def always_unauthorized_def retry_loop.simps)

section \<open>Properties of the quiz fallback\<close>

lemma length_questionStarters: "length (questionStarters difficulty) = 4"
  by (cases difficulty) simp_all

lemma length_generateMockQuiz: "length (generateMockQuiz text difficulty) = 10"
  by (simp add: generateMockQuiz_def)

lemma nth_generateMockQuiz:
  "i < 10 \<Longrightarrow> generateMockQuiz text difficulty ! i = mock_question difficulty i"
  by (simp add: generateMockQuiz_def del: upt_Suc)

text \<open>
  Claim C5. On every non-empty text and every difficulty \<open>generateMockQuiz\<close> returns
  exactly 10 questions. The questions at the indices divisible by 3 (0, 3, 6, 9) are
  short-answer questions; every other one is a multiple-choice question with exactly 4
  options, whose answer is one of the options. The question text starts with the starter at
  \<open>i mod 4\<close> of the four starters of the difficulty.
\<close>

theorem C5_generateMockQuiz:
  assumes "text \<noteq> []"
  shows "length (generateMockQuiz text difficulty) = 10
       \<and> length (questionStarters difficulty) = 4
       \<and> (\<forall>i<10.
            if i mod 3 = 0 then
              q_type (generateMockQuiz text difficulty ! i) = Short_answer
              \<and> q_question (generateMockQuiz text difficulty ! i) =
                  questionStarters difficulty ! (i mod 4) @ '' the main concepts discussed in the text?''
            else
              q_type (generateMockQuiz text difficulty ! i) = Mcq
              \<and> q_question (generateMockQuiz text difficulty ! i) =
                  questionStarters difficulty ! (i mod 4) @ '' the primary focus of this material?''
              \<and> (\<exists>opts. q_options (generateMockQuiz text difficulty ! i) = Some opts
                     \<and> length opts = 4
                     \<and> q_answer (generateMockQuiz text difficulty ! i) \<in> set opts))"
  by (simp add: length_generateMockQuiz length_questionStarters nth_generateMockQuiz mock_question_def)

text \<open>The theorem at a one-sentence text and difficulty \<open>hard\<close>, read at indices 9 and 7.\<close>

theorem C5_generateMockQuiz_witness:
  "''Cells divide by mitosis.'' \<noteq> []
   \<and> length (generateMockQuiz ''Cells divide by mitosis.'' Hard) = 10
   \<and> q_type (generateMockQuiz ''Cells divide by mitosis.'' Hard ! 9) = Short_answer
   \<and> q_question (generateMockQuiz ''Cells divide by mitosis.'' Hard ! 9) =
        ''Evaluate the effectiveness of the main concepts discussed in the text?''
   \<and> q_type (generateMockQuiz ''Cells divide by mitosis.'' Hard ! 7) = Mcq
   \<and> q_question (generateMockQuiz ''Cells divide by mitosis.'' Hard ! 7) =
        ''What are the implications of the primary focus of this material?''"
proof -
  have h: "''Cells divide by mitosis.'' \<noteq> []" by simp
  note t = C5_generateMockQuiz[OF h, of Hard]
  from t have a: "length (generateMockQuiz ''Cells divide by mitosis.'' Hard) = 10" by blast
  from t have "if (9::nat) mod 3 = 0 then
              q_type (generateMockQuiz ''Cells divide by mitosis.'' Hard ! 9) = Short_answer
              \<and> q_question (generateMockQuiz ''Cells divide by mitosis.'' Hard ! 9) =
                  questionStarters Hard ! (9 mod 4) @ '' the main concepts discussed in the text?''
            else
              q_type (generateMockQuiz ''Cells divide by mitosis.'' Hard ! 9) = Mcq
              \<and> q_question (generateMockQuiz ''Cells divide by mitosis.'' Hard ! 9) =
                  questionStarters Hard ! (9 mod 4) @ '' the primary focus of this material?''
              \<and> (\<exists>opts. q_options (generateMockQuiz ''Cells divide by mitosis.'' Hard ! 9) = Some opts
                     \<and> length opts = 4
                     \<and> q_answer (generateMockQuiz ''Cells divide by mitosis.'' Hard ! 9) \<in> set opts)"
    by (elim conjE allE[of _ "9::nat"] impE) simp_all
  then have b: "q_type (generateMockQuiz ''Cells divide by mitosis.'' Hard ! 9) = Short_answer
     \<and> q_question (generateMockQuiz ''Cells divide by mitosis.'' Hard ! 9) =
        ''Evaluate the effectiveness of the main concepts discussed in the text?''"
    by simp
  from t have "if (7::nat) mod 3 = 0 then
              q_type (generateMockQuiz ''Cells divide by mitosis.'' Hard ! 7) = Short_answer
              \<and> q_question (generateMockQuiz ''Cells divide by mitosis.'' Hard ! 7) =
                  questionStarters Hard ! (7 mod 4) @ '' the main concepts discussed in the text?''
            else
              q_type (generateMockQuiz ''Cells divide by mitosis.'' Hard ! 7) = Mcq
              \<and> q_question (generateMockQuiz ''Cells divide by mitosis.'' Hard ! 7) =
                  questionStarters Hard ! (7 mod 4) @ '' the primary focus of this material?''
              \<and> (\<exists>opts. q_options (generateMockQuiz ''Cells divide by mitosis.'' Hard ! 7) = Some opts
                     \<and> length opts = 4
                     \<and> q_answer (generateMockQuiz ''Cells divide by mitosis.'' Hard ! 7) \<in> set opts)"
    by (elim conjE allE[of _ "7::nat"] impE) simp_all
  then have c: "q_type (generateMockQuiz ''Cells divide by mitosis.'' Hard ! 7) = Mcq
     \<and> q_question (generateMockQuiz ''Cells divide by mitosis.'' Hard ! 7) =
        ''What are the implications of the primary focus of this material?''"
    by simp
  from h a b c show ?thesis by simp
qed

text \<open>
  Claim C10. For the same difficulty, any two texts give the same questions: the fallback
  never reads the text.
\<close>

theorem C10_generateMockQuiz_ignores_text:
  "generateMockQuiz T1 difficulty = generateMockQuiz T2 difficulty"
  by (simp add: generateMockQuiz_def)

section \<open>Properties of the extractive summary\<close>

text \<open>Sorting commutes with a map, and a stable insertion sort of a list that is ordered by
  \<open>R\<close> orders it by key first and by \<open>R\<close> among equal keys.\<close>

lemma insort_key_map:
  "insort_key f (g x) (map g ys) = map g (insort_key (\<lambda>y. f (g y)) x ys)"
  by (induction ys) simp_all

lemma sort_key_map:
  "sort_key f (map g ys) = map g (sort_key (\<lambda>y. f (g y)) ys)"
  by (induction ys) (simp_all add: insort_key_map)

lemma sorted_wrt_insort_key_lex:
  fixes f :: "'a \<Rightarrow> 'b::linorder"
  assumes "sorted_wrt (\<lambda>a b. f a < f b \<or> (f a = f b \<and> R a b)) ys"
    and "\<forall>y\<in>set ys. R x y"
  shows "sorted_wrt (\<lambda>a b. f a < f b \<or> (f a = f b \<and> R a b)) (insort_key f x ys)"
  using assms
proof (induction ys)
  case Nil
  then show ?case by simp
next
  case (Cons y ys)
  show ?case
  proof (cases "f x \<le> f y")
    case True
    have "\<forall>z\<in>set ys. f y \<le> f z" using Cons.prems(1) by auto
    with True have "\<forall>z\<in>set (y # ys). f x \<le> f z" by auto
    with Cons.prems(2) have "\<forall>z\<in>set (y # ys). f x < f z \<or> (f x = f z \<and> R x z)"
      by (auto simp: le_less)
    with True Cons.prems(1) show ?thesis by simp
  next
    case False
    then have "f y < f x" by simp
    moreover have "sorted_wrt (\<lambda>a b. f a < f b \<or> (f a = f b \<and> R a b)) (insort_key f x ys)"
      using Cons by simp
    ultimately show ?thesis using False Cons.prems(1) by (auto simp: set_insort_key)
  qed
qed

lemma sorted_wrt_sort_key_lex:
  fixes f :: "'a \<Rightarrow> 'b::linorder"
  assumes "sorted_wrt R xs"
  shows "sorted_wrt (\<lambda>a b. f a < f b \<or> (f a = f b \<and> R a b)) (sort_key f xs)"
  using assms
proof (induction xs)
  case Nil
  then show ?case by simp
next
  case (Cons x xs)
  then show ?case by (simp add: sorted_wrt_insort_key_lex)
qed

lemma length_scoredSentences: "length (scoredSentences text) = length (sentences_of text)"
  by (simp add: scoredSentences_def Let_def)

lemma sentence_scoredSentences:
  "i < length (sentences_of text) \<Longrightarrow> sentence (scoredSentences text ! i) = trim (sentences_of text ! i)"
  by (simp add: scoredSentences_def Let_def nth_enumerate_eq)

lemma score_scoredSentences:
  "i < length (sentences_of text) \<Longrightarrow>
   score (scoredSentences text ! i) = score_of (length (sentences_of text)) i (sentences_of text ! i)"
  by (simp add: scoredSentences_def Let_def nth_enumerate_eq)

text \<open>The ranking of the document positions that the sort computes.\<close>

lemma sorted_scoredSentences:
  "sort_key (\<lambda>item. - score item) (scoredSentences text) =
     map ((!) (scoredSentences text))
       (sort_key (\<lambda>i. - score (scoredSentences text ! i)) [0..<length (scoredSentences text)])"
proof -
  have "sort_key (\<lambda>item. - score item) (map ((!) (scoredSentences text)) [0..<length (scoredSentences text)]) =
     map ((!) (scoredSentences text))
       (sort_key (\<lambda>i. - score (scoredSentences text ! i)) [0..<length (scoredSentences text)])"
    by (rule sort_key_map)
  then show ?thesis by (simp only: map_nth)
qed

lemma ranking_sorted:
  "sorted_wrt (ranks_before text)
     (sort_key (\<lambda>i. - score (scoredSentences text ! i)) [0..<n])"
proof -
  have "sorted_wrt (<) [0..<n]" by simp
  from sorted_wrt_sort_key_lex[OF this, of "\<lambda>i. - score (scoredSentences text ! i)"]
  have "sorted_wrt (\<lambda>a b. - score (scoredSentences text ! a) < - score (scoredSentences text ! b)
          \<or> (- score (scoredSentences text ! a) = - score (scoredSentences text ! b) \<and> a < b))
        (sort_key (\<lambda>i. - score (scoredSentences text ! i)) [0..<n])" .
  moreover have "(\<lambda>a b. - score (scoredSentences text ! a) < - score (scoredSentences text ! b)
          \<or> (- score (scoredSentences text ! a) = - score (scoredSentences text ! b) \<and> a < b))
        = ranks_before text"
    by (auto simp: ranks_before_def fun_eq_iff)
  ultimately show ?thesis by simp
qed

text \<open>
  Claim C6, as amended. \<open>createExtractiveSummary\<close> renders \<open>topSentences\<close> as a numbered
  list. With \<open>n\<close> qualifying sentences (pieces between runs of \<open>.!?\<close> whose trimmed length
  exceeds 15), \<open>topSentences\<close> are the trimmed sentences at \<open>min 8 n\<close> distinct document
  positions \<open>idx\<close>: all of them when \<open>n \<le> 8\<close>, exactly 8 otherwise. In both cases they are
  ordered by descending score with ties in document order (not in document order), and
  every sentence left out ranks after every sentence returned.
\<close>

theorem C6_topSentences:
  "createExtractiveSummary text = ''## '' @ emoji_memo @ '' Summary\<newline>\<newline>'' @ numbered (topSentences text)
   \<and> (\<exists>idx. topSentences text = map (\<lambda>i. trim (sentences_of text ! i)) idx
         \<and> length idx = min 8 (length (sentences_of text))
         \<and> distinct idx
         \<and> set idx \<subseteq> {..<length (sentences_of text)}
         \<and> sorted_wrt (ranks_before text) idx
         \<and> (\<forall>i\<in>set idx. \<forall>j<length (sentences_of text). j \<notin> set idx \<longrightarrow> ranks_before text i j))"
proof -
  define n where "n = length (sentences_of text)"
  define ranking where "ranking = sort_key (\<lambda>i. - score (scoredSentences text ! i)) [0..<n]"
  define idx where "idx = take (min 8 n) ranking"
  have len: "length (scoredSentences text) = n" by (simp add: n_def length_scoredSentences)
  have set_ranking: "set ranking = {..<n}" by (auto simp: ranking_def)
  have sub: "set idx \<subseteq> {..<n}" using set_take_subset[of "min 8 n" ranking] set_ranking by (simp add: idx_def)
  have top: "topSentences text = map (\<lambda>i. sentence (scoredSentences text ! i)) idx"
    by (simp add: topSentences_def sorted_scoredSentences len n_def[symmetric] ranking_def[symmetric]
          take_map idx_def)
  have "map (\<lambda>i. sentence (scoredSentences text ! i)) idx = map (\<lambda>i. trim (sentences_of text ! i)) idx"
    using sub by (intro map_cong refl sentence_scoredSentences) (auto simp: n_def)
  with top have 1: "topSentences text = map (\<lambda>i. trim (sentences_of text ! i)) idx" by simp
  have 2: "length idx = min 8 n" by (simp add: idx_def ranking_def)
  have 3: "distinct idx" by (simp add: idx_def ranking_def)
  have sorted_all: "sorted_wrt (ranks_before text) (idx @ drop (min 8 n) ranking)"
    using ranking_sorted[of "text" n] by (simp add: idx_def ranking_def)
  then have 5: "sorted_wrt (ranks_before text) idx" by (simp add: sorted_wrt_append)
  have 6: "\<forall>i\<in>set idx. \<forall>j<n. j \<notin> set idx \<longrightarrow> ranks_before text i j"
  proof (intro ballI allI impI)
    fix i j assume i: "i \<in> set idx" and j: "j < n" and nj: "j \<notin> set idx"
    from j set_ranking have "j \<in> set (idx @ drop (min 8 n) ranking)" by (simp add: idx_def)
    with nj have "j \<in> set (drop (min 8 n) ranking)" by simp
    with sorted_all i show "ranks_before text i j" by (simp add: sorted_wrt_append)
  qed
  from 1 2 3 sub 5 6 show ?thesis
    unfolding n_def createExtractiveSummary_def by blast
qed

text \<open>The theorem at a text of ten qualifying sentences: eight are returned.\<close>

theorem C6_topSentences_witness:
  "length (sentences_of ten_sentences) = 10 \<and> length (topSentences ten_sentences) = 8"
proof -
  have n: "length (sentences_of ten_sentences) = 10" by code_simp
  from C6_topSentences[of ten_sentences] obtain idx where
    "topSentences ten_sentences = map (\<lambda>i. trim (sentences_of ten_sentences ! i)) idx"
    "length idx = min 8 (length (sentences_of ten_sentences))"
    by blast
  with n show ?thesis by simp
qed

text \<open>
  Claim C6 as stated fails in its first half: a text of three qualifying sentences without
  keywords comes back with the last sentence second, since the first and the last sentence
  score 2 and the middle one 0.
\<close>

theorem C6_counterexample:
  "length (sentences_of three_sentences) \<le> 8
   \<and> map trim (sentences_of three_sentences) =
       [''The first sentence is here'', ''A plain middle sentence'', ''The last sentence is here'']
   \<and> topSentences three_sentences =
       [''The first sentence is here'', ''The last sentence is here'', ''A plain middle sentence'']"
  by code_simp

section \<open>Properties of the generation functions\<close>

text \<open>Each function returns content in every case; which content, by cases on what the
  invoker gave.\<close>

lemma summarizeText_cases:
  "summarizeText api text =
     Inr (case summarizeText_primary api text of
            Inl error \<Rightarrow> createExtractiveSummary text
          | Inr result \<Rightarrow>
              (case first_summary_text result of
                 Some summary \<Rightarrow> formatSummary summary
               | None \<Rightarrow> createExtractiveSummary text))"
  by (simp add: summarizeText_def try_catch_def split: sum.splits option.splits)

lemma generateQuiz_cases:
  "generateQuiz api coin text difficulty =
     Inr (case generateQuiz_primary api text difficulty of
            Inl error \<Rightarrow> generateMockQuiz text difficulty
          | Inr result \<Rightarrow>
              (case first_generated_text result of
                 Some generated \<Rightarrow>
                   if parseQuizFromText coin generated difficulty = [] then generateMockQuiz text difficulty
                   else parseQuizFromText coin generated difficulty
               | None \<Rightarrow> generateMockQuiz text difficulty))"
  by (simp add: generateQuiz_def try_catch_def Let_def split: sum.splits option.splits)

lemma getHomeworkHelp_cases:
  "getHomeworkHelp api question subject =
     Inr (case getHomeworkHelp_primary api question subject of
            Inl error \<Rightarrow> generateMockHomeworkHelp question subject
          | Inr result \<Rightarrow>
              (case first_generated_text result of
                 Some generated \<Rightarrow> formatHomeworkResponse generated subject
               | None \<Rightarrow> generateMockHomeworkHelp question subject))"
  by (simp add: getHomeworkHelp_def try_catch_def split: sum.splits option.splits)

lemma generateMockQuiz_nonempty: "generateMockQuiz text difficulty \<noteq> []"
  by (simp add: generateMockQuiz_def upt_conv_Cons)

lemma generateQuiz_nonempty:
  "generateQuiz api coin text difficulty = Inr qs \<Longrightarrow> qs \<noteq> []"
  by (auto simp: generateQuiz_cases generateMockQuiz_nonempty split: sum.splits option.splits if_splits)

lemma handleSummarize_response:
  "fst (handleSummarize api now content h b) =
     (if trim content = [] \<or> \<not> canUse h then Ignored
      else Answer (projr (summarizeText api content)))"
  by (simp add: handleSummarize_def summarizeText_cases split_beta)

lemma handleGenerateQuiz_response:
  "fst (handleGenerateQuiz api coin now content difficulty h b) =
     (if trim content = [] \<or> \<not> canUse h then Ignored
      else Answer (projr (generateQuiz api coin content difficulty)))"
proof -
  obtain qs where qs: "generateQuiz api coin content difficulty = Inr qs"
    by (simp add: generateQuiz_cases)
  with generateQuiz_nonempty[OF qs] show ?thesis
    by (simp add: handleGenerateQuiz_def split_beta)
qed

lemma handleGetHelp_response:
  "fst (handleGetHelp api now question subject h b) =
     (if trim question = [] \<or> \<not> canUse h then Ignored
      else Answer (projr (getHomeworkHelp api question subject)))"
  by (simp add: handleGetHelp_def getHomeworkHelp_cases split_beta)

text \<open>
  Claim C9. \<open>summarizeText\<close>, \<open>generateQuiz\<close> and \<open>getHomeworkHelp\<close> never throw: each
  returns content, a quiz has at least one question, and the handler of an allowed request
  (a non-blank text, \<open>canUse\<close>) shows that content. When the primary generator fails
  terminally (the invoker throws, or what it returns has no usable text), the content is
  the fallback's; a generated text that parses to no question is replaced by the fallback
  quiz as well.
\<close>

theorem C9_fallback_instead_of_error:
  "(\<exists>c. summarizeText api material = Inr c
        \<and> (canUse h \<and> trim material \<noteq> [] \<longrightarrow> fst (handleSummarize api now material h b) = Answer c))
   \<and> (\<exists>qs. generateQuiz api coin material difficulty = Inr qs \<and> qs \<noteq> []
        \<and> (canUse h \<and> trim material \<noteq> []
             \<longrightarrow> fst (handleGenerateQuiz api coin now material difficulty h b) = Answer qs))
   \<and> (\<exists>c. getHomeworkHelp api question subject = Inr c
        \<and> (canUse h \<and> trim question \<noteq> []
             \<longrightarrow> fst (handleGetHelp api now question subject h b) = Answer c))
   \<and> (primary_failed first_summary_text (summarizeText_primary api material)
        \<longrightarrow> summarizeText api material = Inr (createExtractiveSummary material))
   \<and> (primary_failed first_generated_text (generateQuiz_primary api material difficulty)
        \<longrightarrow> generateQuiz api coin material difficulty = Inr (generateMockQuiz material difficulty))
   \<and> (\<forall>result generated.
         generateQuiz_primary api material difficulty = Inr result
         \<and> first_generated_text result = Some generated
         \<and> parseQuizFromText coin generated difficulty = []
        \<longrightarrow> generateQuiz api coin material difficulty = Inr (generateMockQuiz material difficulty))
   \<and> (primary_failed first_generated_text (getHomeworkHelp_primary api question subject)
        \<longrightarrow> getHomeworkHelp api question subject = Inr (generateMockHomeworkHelp question subject))"
proof (intro conjI)
  show "\<exists>c. summarizeText api material = Inr c
        \<and> (canUse h \<and> trim material \<noteq> [] \<longrightarrow> fst (handleSummarize api now material h b) = Answer c)"
    by (simp add: handleSummarize_response) (simp add: summarizeText_cases)
  show "\<exists>qs. generateQuiz api coin material difficulty = Inr qs \<and> qs \<noteq> []
        \<and> (canUse h \<and> trim material \<noteq> []
             \<longrightarrow> fst (handleGenerateQuiz api coin now material difficulty h b) = Answer qs)"
  proof -
    obtain qs where qs: "generateQuiz api coin material difficulty = Inr qs"
      by (simp add: generateQuiz_cases)
    with generateQuiz_nonempty[OF qs] show ?thesis
      by (simp add: handleGenerateQuiz_response)
  qed
  show "\<exists>c. getHomeworkHelp api question subject = Inr c
        \<and> (canUse h \<and> trim question \<noteq> []
             \<longrightarrow> fst (handleGetHelp api now question subject h b) = Answer c)"
    by (simp add: handleGetHelp_response) (simp add: getHomeworkHelp_cases)
  show "primary_failed first_summary_text (summarizeText_primary api material)
        \<longrightarrow> summarizeText api material = Inr (createExtractiveSummary material)"
    by (simp add: primary_failed_def summarizeText_cases split: sum.splits)
  show "primary_failed first_generated_text (generateQuiz_primary api material difficulty)
        \<longrightarrow> generateQuiz api coin material difficulty = Inr (generateMockQuiz material difficulty)"
    by (simp add: primary_failed_def generateQuiz_cases split: sum.splits)
  show "\<forall>result generated.
         generateQuiz_primary api material difficulty = Inr result
         \<and> first_generated_text result = Some generated
         \<and> parseQuizFromText coin generated difficulty = []
        \<longrightarrow> generateQuiz api coin material difficulty = Inr (generateMockQuiz material difficulty)"
    by (simp add: generateQuiz_cases)
  show "primary_failed first_generated_text (getHomeworkHelp_primary api question subject)
        \<longrightarrow> getHomeworkHelp api question subject = Inr (generateMockHomeworkHelp question subject)"
    by (simp add: primary_failed_def getHomeworkHelp_cases split: sum.splits)
qed

text \<open>The theorem at a service that rejects the credentials (the invoker throws) and at
  one that keeps answering "loading" (the invoker returns the error payload).\<close>

theorem C9_fallback_instead_of_error_witness:
  "primary_failed first_summary_text (summarizeText_primary always_unauthorized three_sentences)
   \<and> summarizeText always_unauthorized three_sentences = Inr (createExtractiveSummary three_sentences)
   \<and> primary_failed first_generated_text (generateQuiz_primary always_loading three_sentences Easy)
   \<and> generateQuiz always_loading heads three_sentences Easy = Inr (generateMockQuiz three_sentences Easy)"
proof -
  have h1: "primary_failed first_summary_text (summarizeText_primary always_unauthorized three_sentences)"
    by (simp add: primary_failed_def summarizeText_primary_def callHFWithRetry_def
          always_unauthorized_def retry_loop.simps)
  have h2: "primary_failed first_generated_text (generateQuiz_primary always_loading three_sentences Easy)"
    by (simp add: primary_failed_def generateQuiz_primary_def callHFWithRetry_def
          always_loading_def retry_loop.simps first_generated_text_def)
  note t1 = C9_fallback_instead_of_error[where api = always_unauthorized and material = three_sentences]
  note t2 = C9_fallback_instead_of_error[where api = always_loading and material = three_sentences
      and difficulty = Easy and coin = heads]
  have r1: "summarizeText always_unauthorized three_sentences = Inr (createExtractiveSummary three_sentences)"
    using h1 t1[THEN conjunct2, THEN conjunct2, THEN conjunct2, THEN conjunct1] by (rule rev_mp)
  have r2: "generateQuiz always_loading heads three_sentences Easy = Inr (generateMockQuiz three_sentences Easy)"
    using h2 t2[THEN conjunct2, THEN conjunct2, THEN conjunct2, THEN conjunct2, THEN conjunct1]
    by (rule rev_mp)
  from h1 r1 h2 r2 show ?thesis by (intro conjI)
qed

section \<open>Properties of the quota hook\<close>

text \<open>What \<open>loadUsageData\<close> does when the store is reachable and holds today's record.\<close>

lemma loadUsageData_found:
  assumes "link b = Online" and "rows b (userId h, today now) = Some d"
  shows "loadUsageData now h b =
     (if now - last_reset d \<ge> sixHours \<and> total_count d \<ge> 15 then
        (h\<lparr>totalUsage := 0, canUse := True, timeUntilReset := sixHours, loading := False\<rparr>,
         b\<lparr>rows := (rows b)((userId h, today now) \<mapsto> d\<lparr>total_count := 0, last_reset := now\<rparr>)\<rparr>)
      else
        (h\<lparr>totalUsage := total_count d, canUse := total_count d < 15,
           timeUntilReset := calculateTimeUntilReset now (last_reset d), loading := False\<rparr>, b))"
  using assms
  by (simp add: loadUsageData_def select_single_def resetUsage_def update_single_def Let_def sixHours_def)

text \<open>
  Claim C2, as amended. For a record read from a reachable store with
  \<open>now - last_reset \<ge> 6 hours\<close>: when its count is at least 15, \<open>loadUsageData\<close> resets it
  (count 0, last reset now) and the hook shows \<open>totalUsage = 0\<close>, \<open>canUse = true\<close>; when its
  count is below 15 the count is not reset: the hook shows the stored count,
  \<open>canUse = true\<close>, and the record stays as it is.
\<close>

theorem C2_reset_only_at_the_cap:
  assumes "link b = Online"
    and "rows b (userId h, today now) = Some d"
    and "now - last_reset d \<ge> sixHours"
  shows "loadUsageData now h b =
     (if total_count d \<ge> 15 then
        (h\<lparr>totalUsage := 0, canUse := True, timeUntilReset := sixHours, loading := False\<rparr>,
         b\<lparr>rows := (rows b)((userId h, today now) \<mapsto> d\<lparr>total_count := 0, last_reset := now\<rparr>)\<rparr>)
      else
        (h\<lparr>totalUsage := total_count d, canUse := True, timeUntilReset := 0, loading := False\<rparr>, b))"
  using assms(3)
  by (simp add: loadUsageData_found[OF assms(1,2)] calculateTimeUntilReset_def sixHours_def)

text \<open>The theorem at 08:00 for a record at count 15 last reset at 01:00.\<close>

theorem C2_reset_only_at_the_cap_witness:
  "link (store_with 15 90000000) = Online
   \<and> rows (store_with 15 90000000) (userId (useUsageLimits ''u1''), today eight_o_clock) =
        Some \<lparr>total_count = 15, last_reset = 90000000\<rparr>
   \<and> eight_o_clock - last_reset \<lparr>total_count = 15, last_reset = 90000000\<rparr> \<ge> sixHours
   \<and> totalUsage (fst (loadUsageData eight_o_clock (useUsageLimits ''u1'') (store_with 15 90000000))) = 0
   \<and> canUse (fst (loadUsageData eight_o_clock (useUsageLimits ''u1'') (store_with 15 90000000)))
   \<and> rows (snd (loadUsageData eight_o_clock (useUsageLimits ''u1'') (store_with 15 90000000))) (''u1'', 1) =
        Some \<lparr>total_count = 0, last_reset = 115200000\<rparr>"
proof -
  have h1: "link (store_with 15 90000000) = Online"
    by (simp add: store_with_def)
  have h2: "rows (store_with 15 90000000) (userId (useUsageLimits ''u1''), today eight_o_clock) =
        Some \<lparr>total_count = 15, last_reset = 90000000\<rparr>"
    by (simp add: store_with_def useUsageLimits_def today_def eight_o_clock_def)
  have h3: "eight_o_clock - last_reset \<lparr>total_count = 15, last_reset = 90000000\<rparr> \<ge> sixHours"
    by (simp add: eight_o_clock_def sixHours_def)
  from C2_reset_only_at_the_cap[OF h1 h2 h3] h1 h2 h3 show ?thesis
    by (simp add: useUsageLimits_def today_def eight_o_clock_def)
qed

text \<open>
  Claim C2 as stated fails: a record at count 5 last reset seven hours ago is read back
  with count 5, and stays at 5 in the store.
\<close>

theorem C2_counterexample:
  "eight_o_clock - 90000000 \<ge> sixHours
   \<and> totalUsage (fst (loadUsageData eight_o_clock (useUsageLimits ''u1'') (store_with 5 90000000))) = 5
   \<and> rows (snd (loadUsageData eight_o_clock (useUsageLimits ''u1'') (store_with 5 90000000))) (''u1'', 1) =
        Some \<lparr>total_count = 5, last_reset = 90000000\<rparr>"
  by (simp add: loadUsageData_def select_single_def store_with_def useUsageLimits_def today_def
        eight_o_clock_def sixHours_def)

text \<open>What \<open>incrementUsage\<close> writes, and what it does once \<open>canUse\<close> is false.\<close>

lemma incrementUsage_online:
  assumes "link b = Online" and "rows b (userId h, today now) = Some d" and "canUse h"
  shows "incrementUsage now h b =
     (True, h\<lparr>totalUsage := totalUsage h + 1, canUse := totalUsage h + 1 < 15\<rparr>,
      b\<lparr>rows := (rows b)((userId h, today now) \<mapsto> d\<lparr>total_count := totalUsage h + 1\<rparr>)\<rparr>)"
  using assms by (simp add: incrementUsage_def update_single_def)

lemma incrementUsage_denied:
  "\<not> canUse h \<Longrightarrow> incrementUsage now h b = (False, h, b)"
  by (simp add: incrementUsage_def)

lemma incrementUsage_times_denied:
  "\<not> canUse h \<Longrightarrow> incrementUsage_times n now h b = (replicate n False, h, b)"
  by (induction n) (simp_all add: incrementUsage_denied)

text \<open>
  Claim C1, as amended. For one instance of the hook whose state is \<open>totalUsage = 14\<close>,
  \<open>canUse = true\<close>, over a reachable store that holds today's record: of \<open>n + 1\<close> successive
  \<open>incrementUsage\<close> calls on that instance the first returns true and all the others
  false. The update is no atomic read-modify-write: it stores the instance's own
  \<open>totalUsage + 1\<close>, whatever count the record holds.
\<close>

theorem C1_one_instance_at_a_time:
  assumes "link b = Online"
    and "rows b (userId h, today now) = Some d"
    and "canUse h"
    and "totalUsage h = 14"
  shows "fst (incrementUsage_times (Suc n) now h b) = True # replicate n False
       \<and> rows (snd (snd (incrementUsage_times (Suc n) now h b))) (userId h, today now) =
           Some (d\<lparr>total_count := totalUsage h + 1\<rparr>)"
  using assms(4)
  by (simp add: incrementUsage_online[OF assms(1,2,3)] incrementUsage_times_denied)

text \<open>The theorem at three calls over a record at count 14.\<close>

theorem C1_one_instance_at_a_time_witness:
  "fst (incrementUsage_times 3 eight_o_clock
          \<lparr>userId = ''u1'', totalUsage = 14, canUse = True, timeUntilReset = 18000000, loading = False\<rparr>
          (store_with 14 111600000)) = [True, False, False]
   \<and> rows (snd (snd (incrementUsage_times 3 eight_o_clock
          \<lparr>userId = ''u1'', totalUsage = 14, canUse = True, timeUntilReset = 18000000, loading = False\<rparr>
          (store_with 14 111600000)))) (''u1'', 1) = Some \<lparr>total_count = 15, last_reset = 111600000\<rparr>"
proof -
  have h1: "link (store_with 14 111600000) = Online"
    by (simp add: store_with_def)
  have h2: "rows (store_with 14 111600000)
      (userId \<lparr>userId = ''u1'', totalUsage = 14, canUse = True, timeUntilReset = 18000000, loading = False\<rparr>,
       today eight_o_clock) = Some \<lparr>total_count = 14, last_reset = 111600000\<rparr>"
    by (simp add: store_with_def today_def eight_o_clock_def)
  have h3: "canUse \<lparr>userId = ''u1'', totalUsage = 14, canUse = True, timeUntilReset = 18000000, loading = False\<rparr>"
    by simp
  have h4: "totalUsage \<lparr>userId = ''u1'', totalUsage = 14, canUse = True, timeUntilReset = 18000000, loading = False\<rparr> = 14"
    by simp
  have three: "(3::nat) = Suc 2" by simp
  from C1_one_instance_at_a_time[OF h1 h2 h3 h4, of 2] show ?thesis
    unfolding three by (simp add: today_def eight_o_clock_def numeral_2_eq_2)
qed

text \<open>
  Claim C1 as stated fails: two instances of the hook that both loaded the count 14 are
  both allowed, and the record ends at 15 after two recorded uses.
\<close>

theorem C1_counterexample:
  "fst (two_instances eight_o_clock ''u1'' (store_with 14 111600000)) = True
   \<and> fst (snd (two_instances eight_o_clock ''u1'' (store_with 14 111600000))) = True
   \<and> rows (snd (snd (two_instances eight_o_clock ''u1'' (store_with 14 111600000)))) (''u1'', 1) =
        Some \<lparr>total_count = 15, last_reset = 111600000\<rparr>"
  by (simp add: two_instances_def loadUsageData_def incrementUsage_def select_single_def
        update_single_def store_with_def useUsageLimits_def today_def eight_o_clock_def sixHours_def
        calculateTimeUntilReset_def)

text \<open>
  Claim C7 is not met by the code. \<open>canUseFeature\<close> lets a premium profile through whatever
  its counts are, but the gate the tabs use is \<open>canUse\<close> of \<open>useUsageLimits\<close>, which never
  reads the profile: with today's record at count 15, reset an hour ago, \<open>canUse\<close> is false
  and the handler ignores the request.
\<close>

theorem C7_premium_is_capped:
  "canUseFeature (Some premium_profile) Quiz
   \<and> \<not> canUse (fst (loadUsageData eight_o_clock (useUsageLimits ''u1'') (store_with 15 111600000)))
   \<and> fst (handleGenerateQuiz healthy_api heads eight_o_clock ''Some notes'' Medium
            (fst (loadUsageData eight_o_clock (useUsageLimits ''u1'') (store_with 15 111600000)))
            (store_with 15 111600000)) = Ignored"
  by (simp add: premium_profile_def handleGenerateQuiz_def loadUsageData_def select_single_def
        store_with_def useUsageLimits_def today_def eight_o_clock_def sixHours_def)

text \<open>An unreachable store changes nothing in the hook but \<open>loading\<close>.\<close>

lemma loadUsageData_unreachable:
  "link b \<noteq> Online \<Longrightarrow> loadUsageData now h b = (h\<lparr>loading := False\<rparr>, b)"
  by (cases "link b") (simp_all add: loadUsageData_def select_single_def)

lemma incrementUsage_unreachable:
  "link b \<noteq> Online \<Longrightarrow> incrementUsage now h b = (False, h, b)"
  by (cases "link b") (simp_all add: incrementUsage_def update_single_def)

text \<open>
  Claim C8, as amended. When the usage store is unreachable (its answers are errors, or
  rejected promises), \<open>loadUsageData\<close> leaves \<open>canUse\<close> as it was, which is true for a hook
  just mounted, so the handler serves a non-blank request; \<open>incrementUsage\<close> returns false
  and records nothing.
\<close>

theorem C8_unreachable_store_fails_open:
  assumes "link b \<noteq> Online"
  shows "loadUsageData now h b = (h\<lparr>loading := False\<rparr>, b)
       \<and> incrementUsage now h b = (False, h, b)
       \<and> canUse (fst (loadUsageData now (useUsageLimits user) b))
       \<and> (\<exists>c. summarizeText api content = Inr c
             \<and> (trim content \<noteq> [] \<longrightarrow>
                  handleSummarize api now content (fst (loadUsageData now (useUsageLimits user) b)) b =
                    (Answer c, (useUsageLimits user)\<lparr>loading := False\<rparr>, b)))"
proof -
  obtain c where c: "summarizeText api content = Inr c"
    by (cases "summarizeText api content")
       (simp_all add: summarizeText_def try_catch_def split: sum.splits option.splits)
  have "trim content \<noteq> [] \<longrightarrow>
          handleSummarize api now content (fst (loadUsageData now (useUsageLimits user) b)) b =
            (Answer c, (useUsageLimits user)\<lparr>loading := False\<rparr>, b)"
    using assms c
    by (simp add: handleSummarize_def loadUsageData_unreachable incrementUsage_unreachable
          useUsageLimits_def)
  with c assms show ?thesis
    by (simp add: loadUsageData_unreachable incrementUsage_unreachable useUsageLimits_def)
qed

text \<open>The theorem at a store that rejects every query.\<close>

theorem C8_unreachable_store_fails_open_witness:
  "link rejecting_store \<noteq> Online
   \<and> canUse (fst (loadUsageData eight_o_clock (useUsageLimits ''u1'') rejecting_store))
   \<and> incrementUsage eight_o_clock (useUsageLimits ''u1'') rejecting_store =
        (False, useUsageLimits ''u1'', rejecting_store)"
proof -
  have h: "link rejecting_store \<noteq> Online" by (simp add: rejecting_store_def)
  from h C8_unreachable_store_fails_open[OF h, where now = eight_o_clock and h = "useUsageLimits ''u1''"
      and user = "''u1''" and api = healthy_api and content = "''Some notes''"]
  show ?thesis by blast
qed

text \<open>
  Claim C8 as stated fails: with the store unreachable, a freshly mounted hook allows the
  request and the summary is shown.
\<close>

theorem C8_counterexample:
  "link unreachable_store \<noteq> Online
   \<and> canUse (fst (loadUsageData eight_o_clock (useUsageLimits ''u1'') unreachable_store))
   \<and> fst (handleSummarize healthy_api eight_o_clock ''Some notes''
            (fst (loadUsageData eight_o_clock (useUsageLimits ''u1'') unreachable_store))
            unreachable_store) = Answer (formatSummary ''Cells divide'')"
  by (simp add: unreachable_store_def loadUsageData_def select_single_def useUsageLimits_def
        handleSummarize_def summarizeText_def summarizeText_primary_def try_catch_def
        callHFWithRetry_def retry_loop.simps healthy_api_def first_summary_text_def
        incrementUsage_def update_single_def is_space_def trim_def)

end
